theory Spec2Isabelle
  imports Complex_Main
begin

section \<open>Python strings\<close>

text \<open>
  A Python \<open>str\<close> is modelled as a HOL \<open>string\<close>. The character classes and case
  mappings below are those of Python on ASCII text (code points below 128, the predicate
  \<open>ascii\<close>), which is the range the keyword tables, the alias table and the regular
  expressions of \<open>services/agent_service.py\<close> are written in. They are not Python's
  beyond ASCII, where \<open>str.lower\<close>, \<open>str.upper\<close>, \<open>\w\<close>, \<open>\d\<close>, \<open>\s\<close> and
  \<open>int\<close> follow the Unicode tables: a theorem about every text whose statement rests on
  these classes assumes \<open>ascii\<close> of the text. A code point beyond ASCII in a tool result
  is carried as its UTF-8 bytes, on which \<open>startswith\<close> agrees with Python.
\<close>

definition code :: "char \<Rightarrow> nat" where
  "code c = of_char c"

text \<open>On ASCII, \<open>str.isupper\<close> and the class \<open>[A-Z]\<close>, \<open>str.islower\<close>, and the class
  \<open>\d\<close>.\<close>

definition isupper :: "char \<Rightarrow> bool" where
  "isupper c = (65 \<le> code c \<and> code c \<le> 90)"

definition islower :: "char \<Rightarrow> bool" where
  "islower c = (97 \<le> code c \<and> code c \<le> 122)"

definition isdigit :: "char \<Rightarrow> bool" where
  "isdigit c = (48 \<le> code c \<and> code c \<le> 57)"

text \<open>On ASCII, \<open>str.isspace\<close>, also the class \<open>\s\<close> of \<open>re\<close> on \<open>str\<close> patterns and
  the separators of \<open>str.split()\<close>: TAB, LF, VT, FF, CR, FS, GS, RS, US and the space.\<close>

definition isspace :: "char \<Rightarrow> bool" where
  "isspace c = ((9 \<le> code c \<and> code c \<le> 13) \<or> (28 \<le> code c \<and> code c \<le> 32))"

text \<open>On ASCII, the class \<open>\w\<close>: letters, digits and the underscore.\<close>

definition isword :: "char \<Rightarrow> bool" where
  "isword c = (isupper c \<or> islower c \<or> isdigit c \<or> code c = 95)"

text \<open>The texts on which the classes above and the case mappings below are Python's.\<close>

definition ascii :: "string \<Rightarrow> bool" where
  "ascii s = list_all (\<lambda>c. code c < 128) s"

definition lower_char :: "char \<Rightarrow> char" where
  "lower_char c = (if isupper c then char_of (code c + 32) else c)"

definition upper_char :: "char \<Rightarrow> char" where
  "upper_char c = (if islower c then char_of (code c - 32) else c)"

definition lower :: "string \<Rightarrow> string" where
  "lower s = map lower_char s"

definition upper :: "string \<Rightarrow> string" where
  "upper s = map upper_char s"

fun startswith :: "string \<Rightarrow> string \<Rightarrow> bool" where
  "startswith s [] = True"
| "startswith [] (p # ps) = False"
| "startswith (c # cs) (p # ps) = (c = p \<and> startswith cs ps)"

text \<open>\<open>contains sub s\<close> is Python's \<open>sub in s\<close>.\<close>

fun contains :: "string \<Rightarrow> string \<Rightarrow> bool" where
  "contains sub [] = (sub = [])"
| "contains sub (c # cs) = (startswith (c # cs) sub \<or> contains sub cs)"

text \<open>\<open>any(word in text for word in words)\<close>.\<close>

definition any_in :: "string list \<Rightarrow> string \<Rightarrow> bool" where
  "any_in ws s = list_ex (\<lambda>w. contains w s) ws"

definition strip :: "string \<Rightarrow> string" where
  "strip s = rev (dropWhile isspace (rev (dropWhile isspace s)))"

text \<open>\<open>str.split()\<close> without arguments: the maximal runs of non-space characters.\<close>

fun split_from :: "string \<Rightarrow> string \<Rightarrow> string list" where
  "split_from cur [] = (if cur = [] then [] else [cur])"
| "split_from cur (c # cs) =
     (if isspace c then (if cur = [] then split_from [] cs else cur # split_from [] cs)
      else split_from (cur @ [c]) cs)"

definition split :: "string \<Rightarrow> string list" where
  "split s = split_from [] s"

fun join :: "string \<Rightarrow> string list \<Rightarrow> string" where
  "join sep [] = []"
| "join sep [x] = x"
| "join sep (x # y # ys) = x @ sep @ join sep (y # ys)"

text \<open>\<open>xs[i:j]\<close> for \<open>0 \<le> i \<le> j\<close>.\<close>

definition slice :: "'a list \<Rightarrow> nat \<Rightarrow> nat \<Rightarrow> 'a list" where
  "slice xs i j = take (j - i) (drop i xs)"

subsection \<open>Exceptions and \<open>int\<close>\<close>

text \<open>The exceptions of class \<open>Exception\<close> that reach this code: the \<open>ValueError\<close> of
  \<open>int\<close>, and whatever a collaborator (provider, tool, language model) raises, with its
  message.\<close>

datatype exn = ValueError | Raised string

text \<open>\<open>try: body except Exception as e: handler\<close>.\<close>

definition try_except :: "exn + 'a \<Rightarrow> (exn \<Rightarrow> exn + 'a) \<Rightarrow> exn + 'a" where
  "try_except body handler = (case body of Inl e \<Rightarrow> handler e | Inr v \<Rightarrow> Inr v)"

definition digit_value :: "char \<Rightarrow> int" where
  "digit_value c = int (code c) - 48"

definition int_of_digits :: "string \<Rightarrow> int" where
  "int_of_digits ds = foldl (\<lambda>n c. 10 * n + digit_value c) 0 ds"

text \<open>CPython's default limit on the number of digit characters \<open>int\<close> converts
  (\<open>sys.int_info.default_max_str_digits\<close>); a longer digit string raises \<open>ValueError\<close>.\<close>

definition int_max_str_digits :: nat where
  "int_max_str_digits = 4300"

text \<open>\<open>int(ds)\<close> on a non-empty string of decimal digits, as the patterns \<open>\d+\<close>,
  \<open>\d\<close> and \<open>20\d{2}\<close> capture.\<close>

definition py_int :: "string \<Rightarrow> exn + int" where
  "py_int ds = (if int_max_str_digits < length ds then Inl ValueError else Inr (int_of_digits ds))"

subsection \<open>The regular expressions of the router\<close>

text \<open>
  \<open>re.search(r'\b([A-Z]{4})\b', s)\<close>. The flag says whether the position is preceded by
  the start of the text or by a non-word character, which is when \<open>\b\<close> holds before a
  letter. The pattern matches four capital letters followed by the end of the text or
  by a non-word character; \<open>re.search\<close> returns the leftmost match.
\<close>

definition match_ticker_here :: "string \<Rightarrow> bool" where
  "match_ticker_here s =
     (4 \<le> length s \<and> list_all isupper (take 4 s) \<and>
      (case drop 4 s of [] \<Rightarrow> True | d # _ \<Rightarrow> \<not> isword d))"

fun search_ticker_from :: "bool \<Rightarrow> string \<Rightarrow> string option" where
  "search_ticker_from b [] = None"
| "search_ticker_from b (c # cs) =
     (if b \<and> match_ticker_here (c # cs) then Some (take 4 (c # cs))
      else search_ticker_from (\<not> isword c) cs)"

definition search_ticker :: "string \<Rightarrow> string option" where
  "search_ticker s = search_ticker_from True s"

text \<open>
  \<open>re.search(r'\b(\d+)\b', s)\<close>: the leftmost maximal run of digits that has no word
  character on either side. A run that touches a letter or an underscore does not match
  at any of its positions.
\<close>

fun search_number_from :: "bool \<Rightarrow> string \<Rightarrow> string option" where
  "search_number_from b [] = None"
| "search_number_from b (c # cs) =
     (if b \<and> isdigit c \<and> (case dropWhile isdigit cs of [] \<Rightarrow> True | d # _ \<Rightarrow> \<not> isword d)
      then Some (c # takeWhile isdigit cs)
      else search_number_from (\<not> isword c) cs)"

definition search_number :: "string \<Rightarrow> string option" where
  "search_number s = search_number_from True s"

text \<open>
  \<open>re.search(r'(?:quarter|q|kuartal)\s*(\d)', s)\<close>: at each position the alternatives are
  tried in order; after one of them the white space is skipped and a digit is captured.
  (\<open>\s\<close> and \<open>\d\<close> are disjoint, so giving back white space never helps.)
\<close>

definition digit_after :: "string \<Rightarrow> string \<Rightarrow> char option" where
  "digit_after alt s =
     (if startswith s alt
      then (case dropWhile isspace (drop (length alt) s) of
              [] \<Rightarrow> None
            | d # _ \<Rightarrow> if isdigit d then Some d else None)
      else None)"

definition match_quarter_here :: "string \<Rightarrow> char option" where
  "match_quarter_here s =
     (case digit_after ''quarter'' s of Some d \<Rightarrow> Some d
      | None \<Rightarrow> (case digit_after ''q'' s of Some d \<Rightarrow> Some d
         | None \<Rightarrow> digit_after ''kuartal'' s))"

fun search_quarter :: "string \<Rightarrow> char option" where
  "search_quarter [] = None"
| "search_quarter (c # cs) =
     (case match_quarter_here (c # cs) of Some d \<Rightarrow> Some d | None \<Rightarrow> search_quarter cs)"

text \<open>\<open>re.search(r'20\d{2}', s)\<close>.\<close>

fun match_year_here :: "string \<Rightarrow> bool" where
  "match_year_here (a # b # c # d # _) = (a = CHR ''2'' \<and> b = CHR ''0'' \<and> isdigit c \<and> isdigit d)"
| "match_year_here _ = False"

fun search_year :: "string \<Rightarrow> string option" where
  "search_year [] = None"
| "search_year (c # cs) =
     (if match_year_here (c # cs) then Some (take 4 (c # cs)) else search_year cs)"

section \<open>The Entity Cache\<close>

text \<open>A company record of the provider: the keys \<open>company_name\<close> and \<open>symbol\<close>, each
  read with the default \<open>""\<close>.\<close>

record company =
  company_name :: string
  symbol :: string

text \<open>The two requests \<open>get_all_companies\<close> sends, with their \<open>n_stock\<close>; and what
  comes back from \<open>SectorsAPI\<close>: a JSON list of company records, or any other JSON value
  (the error mapping of \<open>_make_request\<close>).\<close>

datatype api_request = GetCompanies nat | GetCompaniesBySubsector string nat

datatype api_json = JsonList "company list" | JsonOther

text \<open>Values of a parameter mapping, and the mapping itself in insertion order.\<close>

datatype pyval = PyNone | PyInt int | PyStr string

type_synonym params = "(string \<times> pyval) list"

text \<open>
  Everything outside the arguments that the functions of \<open>agent_service.py\<close> read or
  write:
  \<^item> \<open>company_cache\<close> is the global \<open>_COMPANY_CACHE\<close> (\<open>None\<close> until it is populated);
  \<^item> \<open>sectors_api\<close> says whether the global \<open>sectors_api\<close> is a client (not \<open>None\<close>);
  \<^item> \<open>provider\<close> answers the requests of that client, the \<open>n\<close>-th request of the process
    by \<open>provider n\<close>, and \<open>api_calls\<close> counts the requests made so far;
  \<^item> \<open>now_year\<close> is \<open>datetime.now().year\<close>;
  \<^item> \<open>get_chat_response\<close> is the language model of \<open>services/groq_service.py\<close>, whose
    answer is a text or \<open>None\<close>;
  \<^item> \<open>invoke\<close> is \<open>tool.invoke(params)\<close> of the tool of that name in
    \<open>services/sectors_tools.py\<close>.
\<close>

record world =
  company_cache :: "company list option"
  sectors_api :: bool
  SECTORS_AVAILABLE :: bool
  provider :: "nat \<Rightarrow> api_request \<Rightarrow> exn + api_json"
  api_calls :: nat
  now_year :: int
  get_chat_response :: "(string \<times> string) list \<Rightarrow> exn + string option"
  invoke :: "string \<Rightarrow> params \<Rightarrow> exn + string option"

definition api_call :: "world \<Rightarrow> api_request \<Rightarrow> (exn + api_json) \<times> world" where
  "api_call w rq = (provider w (api_calls w) rq, w\<lparr>api_calls := Suc (api_calls w)\<rparr>)"

definition common_subsectors :: "string list" where
  "common_subsectors =
     [''banks'', ''telecommunication'', ''energy'', ''consumer-goods'',
      ''mining'', ''property'', ''infrastructure'', ''finance'']"

text \<open>The fallback loop of \<open>get_all_companies\<close>: one request per subsector, a list
  extends the result, anything else (also an exception) is skipped.\<close>

fun fetch_subsectors :: "world \<Rightarrow> string list \<Rightarrow> company list \<Rightarrow> company list \<times> world" where
  "fetch_subsectors w [] all_companies = (all_companies, w)"
| "fetch_subsectors w (subsector # rest) all_companies =
     (case api_call w (GetCompaniesBySubsector subsector 50) of
        (Inr (JsonList companies), w') \<Rightarrow> fetch_subsectors w' rest (all_companies @ companies)
      | (_, w') \<Rightarrow> fetch_subsectors w' rest all_companies)"

definition get_all_companies :: "world \<Rightarrow> company list \<times> world" where
  "get_all_companies w =
     (case company_cache w of
        Some cached \<Rightarrow> (cached, w)
      | None \<Rightarrow>
          if \<not> sectors_api w then ([], w)
          else (case api_call w (GetCompanies 200) of
                  (Inl e, w1) \<Rightarrow> ([], w1)
                | (Inr (JsonList companies), w1) \<Rightarrow>
                    if companies \<noteq> [] then (companies, w1\<lparr>company_cache := Some companies\<rparr>)
                    else (case fetch_subsectors w1 common_subsectors [] of
                            (all_companies, w2) \<Rightarrow>
                              (all_companies, w2\<lparr>company_cache := Some all_companies\<rparr>))
                | (Inr JsonOther, w1) \<Rightarrow>
                    (case fetch_subsectors w1 common_subsectors [] of
                       (all_companies, w2) \<Rightarrow>
                         (all_companies, w2\<lparr>company_cache := Some all_companies\<rparr>))))"

section \<open>The Ticker Extractor\<close>

text \<open>
  \<open>SequenceMatcher(None, a, b).ratio()\<close> belongs to Python's \<open>difflib\<close>, not to this
  repository: it is the parameter \<open>ratio\<close> of everything below, and nothing is assumed
  of it. Scores are rational numbers; \<open>0.85\<close> and \<open>0.7\<close> are the decimal fractions.
\<close>

type_synonym similarity = "string \<Rightarrow> string \<Rightarrow> rat"

text \<open>The loop of \<open>find_ticker_by_name\<close> over the companies: \<open>Inl ticker\<close> is the early
  return on an exact ticker, \<open>Inr (best_match, best_score)\<close> the state after the loop.\<close>

fun best_match_loop ::
  "similarity \<Rightarrow> string \<Rightarrow> company list \<Rightarrow> string option \<Rightarrow> rat \<Rightarrow> string + (string option \<times> rat)" where
  "best_match_loop ratio company_name_lower [] best_match best_score = Inr (best_match, best_score)"
| "best_match_loop ratio company_name_lower (c # companies) best_match best_score =
     (let name = lower (company_name c); ticker = symbol c in
      if lower ticker = company_name_lower then Inl ticker
      else
        let score = ratio company_name_lower name;
            score = (if contains company_name_lower name then max score (85 / 100) else score)
        in if score > best_score
           then best_match_loop ratio company_name_lower companies (Some ticker) score
           else best_match_loop ratio company_name_lower companies best_match best_score)"

definition find_ticker_by_name :: "similarity \<Rightarrow> world \<Rightarrow> string \<Rightarrow> string option \<times> world" where
  "find_ticker_by_name ratio w name =
     (if name = [] then (None, w)
      else (case get_all_companies w of
              (companies, w') \<Rightarrow>
                if companies = [] then (None, w')
                else (case best_match_loop ratio (strip (lower name)) companies None 0 of
                        Inl ticker \<Rightarrow> (Some ticker, w')
                      | Inr (best_match, best_score) \<Rightarrow>
                          if best_score > 7 / 10 then (best_match, w') else (None, w'))))"

definition quick_map :: "(string \<times> string) list" where
  "quick_map =
     [(''bca'', ''BBCA''),
      (''bank bca'', ''BBCA''),
      (''pt bank central asia'', ''BBCA''),
      (''bri'', ''BBRI''),
      (''bank bri'', ''BBRI''),
      (''bank rakyat indonesia'', ''BBRI''),
      (''mandiri'', ''BMRI''),
      (''bank mandiri'', ''BMRI''),
      (''telkom'', ''TLKM''),
      (''telkomsel'', ''TLKM''),
      (''astra'', ''ASII''),
      (''goto'', ''GOTO''),
      (''gojek'', ''GOTO''),
      (''tokopedia'', ''GOTO''),
      (''bukalapak'', ''BUKA''),
      (''buka'', ''BUKA''),
      (''unilever'', ''UNVR''),
      (''indofood'', ''INDF''),
      (''adaro'', ''ADRO'')]"

definition common_words :: "string list" where
  "common_words =
     [''DARI'', ''YANG'', ''AKAN'', ''INFO'', ''DATA'', ''HARI'', ''SAYA'', ''BANK'',
      ''JUGA'', ''ATAU'', ''KATA'', ''BISA'', ''MANA'', ''INI'']"

text \<open>The first stage: the first key of \<open>quick_map\<close>, in the order of the table, that
  occurs in the lowercased text.\<close>

definition quick_match :: "string \<Rightarrow> string option" where
  "quick_match text_lower =
     map_option snd (find (\<lambda>(key, ticker). contains key text_lower) quick_map)"

text \<open>The second stage: the first match of the pattern only; a match in the stoplist
  ends the stage.\<close>

definition explicit_ticker :: "string \<Rightarrow> string option" where
  "explicit_ticker text_upper =
     (case search_ticker text_upper of
        None \<Rightarrow> None
      | Some potential_ticker \<Rightarrow>
          if potential_ticker \<notin> set common_words then Some potential_ticker else None)"

text \<open>The third stage: the candidates, capitalised words first, then the phrases of one
  to three consecutive words.\<close>

definition potential_names :: "string \<Rightarrow> string list" where
  "potential_names text =
     (let words = split text in
      filter (\<lambda>word. length word > 3 \<and> (case word of [] \<Rightarrow> False | c # _ \<Rightarrow> isupper c)) words @
      filter (\<lambda>phrase. length phrase > 3)
        (concat (map (\<lambda>i. map (\<lambda>j. join '' '' (slice words i j))
                             [i + 1 ..< min (i + 4) (length words + 1)])
                     [0 ..< length words])))"

fun first_found :: "similarity \<Rightarrow> world \<Rightarrow> string list \<Rightarrow> string option \<times> world" where
  "first_found ratio w [] = (None, w)"
| "first_found ratio w (name # names) =
     (case find_ticker_by_name ratio w name of
        (Some ticker, w') \<Rightarrow>
          if ticker \<noteq> [] then (Some ticker, w') else first_found ratio w' names
      | (None, w') \<Rightarrow> first_found ratio w' names)"

definition extract_ticker :: "similarity \<Rightarrow> world \<Rightarrow> string \<Rightarrow> string option \<times> world" where
  "extract_ticker ratio w text =
     (case quick_match (lower text) of
        Some ticker \<Rightarrow> (Some ticker, w)
      | None \<Rightarrow>
          (case explicit_ticker (upper text) of
             Some potential_ticker \<Rightarrow> (Some potential_ticker, w)
           | None \<Rightarrow> first_found ratio w (potential_names text)))"

section \<open>The Intent Router\<close>

text \<open>Chat history: the LangChain messages with their content. The argument
  \<open>chat_history\<close> defaults to \<open>None\<close>, which every use treats as the empty list.\<close>

datatype message = HumanMessage string | AIMessage string | SystemMessage string

text \<open>Truth value of an optional integer, as in \<open>if quarter\<close>.\<close>

fun truthy :: "int option \<Rightarrow> bool" where
  "truthy None = False"
| "truthy (Some n) = (n \<noteq> 0)"

fun opt_int :: "int option \<Rightarrow> pyval" where
  "opt_int None = PyNone"
| "opt_int (Some n) = PyInt n"

definition top_words :: "string list" where
  "top_words = [''top'', ''terbesar'', ''tertinggi'', ''ranking'', ''papan atas'']"

definition mcap_words :: "string list" where
  "mcap_words = [''market cap'', ''kapitalisasi'', ''nilai pasar'']"

definition entity_words :: "string list" where
  "entity_words = [''perusahaan'', ''saham'', ''emiten'']"

definition quarter_words :: "string list" where
  "quarter_words =
     [''quarter'', ''kuartal'', ''q1'', ''q2'', ''q3'', ''q4'', ''quarterly'', ''triwulan'']"

definition segment_words :: "string list" where
  "segment_words = [''segmen'', ''segment'', ''bisnis'', ''breakdown'', ''pembagian'']"

definition news_words :: "string list" where
  "news_words = [''berita'', ''news'', ''kabar'']"

definition index_keywords :: "string list" where
  "index_keywords = [''lq45'', ''lq 45'', ''idx30'', ''idx 30'', ''kompas100'']"

definition subsector_map :: "(string \<times> string) list" where
  "subsector_map =
     [(''bank'', ''banks''),
      (''banking'', ''banks''),
      (''perbankan'', ''banks''),
      (''telekomunikasi'', ''telecommunication''),
      (''energi'', ''energy''),
      (''tambang'', ''mining'')]"

definition report_words :: "string list" where
  "report_words = [''laporan'', ''report'', ''analisis'']"

text \<open>Step 1 of the router: the ranking request. \<open>int\<close> is the only call of the router
  that can raise.\<close>

definition is_top_request :: "string \<Rightarrow> bool" where
  "is_top_request text_lower =
     (any_in top_words text_lower \<and>
      (any_in mcap_words text_lower \<or> any_in entity_words text_lower))"

definition route_top :: "string \<Rightarrow> exn + string \<times> params" where
  "route_top user_input =
     (case search_number user_input of
        None \<Rightarrow> Inr (''top_market_cap'', [(''limit'', PyInt 5)])
      | Some digits \<Rightarrow>
          (case py_int digits of
             Inl e \<Rightarrow> Inl e
           | Inr n \<Rightarrow> Inr (''top_market_cap'', [(''limit'', PyInt (min n 50))])))"

text \<open>The quarterly rule of step 2: \<open>None\<close> when the rule falls through to the rules
  after it.\<close>

definition route_quarterly :: "int \<Rightarrow> string \<Rightarrow> string \<Rightarrow> (string \<times> params) option" where
  "route_quarterly current_year user_input ticker =
     (let quarter = map_option digit_value (search_quarter (lower user_input));
          year = (case search_year user_input of
                    Some y \<Rightarrow> Some (int_of_digits y)
                  | None \<Rightarrow> if truthy quarter then Some current_year else None)
      in if truthy quarter \<or> truthy year
         then Some (''quarterly_financials'',
                    [(''ticker'', PyStr ticker), (''quarter'', opt_int quarter), (''year'', opt_int year)])
         else None)"

text \<open>Step 2: the rules for a text with a ticker.\<close>

definition route_ticker :: "int \<Rightarrow> string \<Rightarrow> string \<Rightarrow> string \<times> params" where
  "route_ticker current_year user_input ticker =
     (let text_lower = lower user_input;
          quarterly = (if any_in quarter_words text_lower
                       then route_quarterly current_year user_input ticker else None)
      in case quarterly of
           Some decision \<Rightarrow> decision
         | None \<Rightarrow>
             if any_in segment_words text_lower then (''company_segments'', [(''ticker'', PyStr ticker)])
             else if any_in news_words text_lower
             then (''market_news'', [(''query'', PyStr ticker), (''limit'', PyInt 10)])
             else (''stock_info'', [(''ticker'', PyStr ticker)]))"

text \<open>Step 3: the rules for a text without a ticker.\<close>

definition route_general :: "string \<Rightarrow> string \<times> params" where
  "route_general text_lower =
     (if any_in news_words text_lower then (''market_news'', [(''query'', PyNone), (''limit'', PyInt 10)])
      else
        (case find (\<lambda>keyword. contains keyword text_lower) index_keywords of
           Some keyword \<Rightarrow>
             (''companies_by_index'',
              [(''index'', PyStr (upper (filter (\<lambda>c. c \<noteq> CHR '' '') keyword))), (''limit'', PyInt 20)])
         | None \<Rightarrow>
             (case find (\<lambda>(keyword, subsector). contains keyword text_lower) subsector_map of
                Some (keyword, subsector) \<Rightarrow>
                  if any_in report_words text_lower
                  then (''subsector_report'', [(''subsector'', PyStr subsector)])
                  else (''companies_subsector'', [(''subsector'', PyStr subsector), (''limit'', PyInt 20)])
              | None \<Rightarrow> (''unknown'', []))))"

text \<open>The decision once the ticker is known; \<open>if ticker\<close> holds for a ticker that is
  neither \<open>None\<close> nor empty.\<close>

definition route :: "int \<Rightarrow> string \<Rightarrow> string option \<Rightarrow> exn + string \<times> params" where
  "route current_year user_input ticker =
     (let text_lower = lower user_input in
      if is_top_request text_lower then route_top user_input
      else (case ticker of
              Some t \<Rightarrow>
                if t \<noteq> [] then Inr (route_ticker current_year user_input t)
                else Inr (route_general text_lower)
            | None \<Rightarrow> Inr (route_general text_lower)))"

definition detect_intent_and_route ::
  "similarity \<Rightarrow> world \<Rightarrow> string \<Rightarrow> message list \<Rightarrow> (exn + string \<times> params) \<times> world" where
  "detect_intent_and_route ratio w user_input chat_history =
     (case extract_ticker ratio w user_input of
        (ticker, w') \<Rightarrow> (route (now_year w') user_input ticker, w'))"

section \<open>The Tool Executor\<close>

text \<open>The body of the \<open>try\<close> of \<open>execute_tool\<close>: the chain of comparisons, each
  branch invoking one tool of \<open>services/sectors_tools.py\<close> with the parameters as they
  are.\<close>

definition dispatch :: "world \<Rightarrow> string \<Rightarrow> params \<Rightarrow> exn + string option" where
  "dispatch w intent ps =
     (if intent = ''stock_info'' then invoke w ''get_stock_info'' ps
      else if intent = ''quarterly_financials'' then invoke w ''get_quarterly_financials'' ps
      else if intent = ''company_segments'' then invoke w ''get_company_segments'' ps
      else if intent = ''market_news'' then invoke w ''get_market_news'' ps
      else if intent = ''top_market_cap'' then invoke w ''get_top_stocks_by_market_cap'' ps
      else if intent = ''companies_by_index'' then invoke w ''get_companies_by_index'' ps
      else if intent = ''companies_subsector'' then invoke w ''get_companies_by_subsector'' ps
      else if intent = ''subsector_report'' then invoke w ''get_subsector_report'' ps
      else if intent = ''idx_market_cap_history'' then invoke w ''get_idx_market_cap_history'' ps
      else Inr None)"

definition dispatch_tags :: "string list" where
  "dispatch_tags =
     [''stock_info'', ''quarterly_financials'', ''company_segments'', ''market_news'',
      ''top_market_cap'', ''companies_by_index'', ''companies_subsector'', ''subsector_report'',
      ''idx_market_cap_history'']"

definition execute_tool :: "world \<Rightarrow> string \<Rightarrow> params \<Rightarrow> exn + string option" where
  "execute_tool w intent ps = try_except (dispatch w intent ps) (\<lambda>e. Inr None)"

section \<open>The Context Resolver\<close>

definition nl :: string where
  "nl = [CHR 0x0A]"

definition dq :: string where
  "dq = [CHR 0x22]"

text \<open>\<open>chat_history[-5:]\<close>.\<close>

definition last5 :: "'a list \<Rightarrow> 'a list" where
  "last5 xs = drop (length xs - 5) xs"

fun context_line :: "message \<Rightarrow> string list" where
  "context_line (HumanMessage content) = [''User: '' @ content]"
| "context_line (AIMessage content) = [''Assistant: '' @ take 200 content @ ''...'']"
| "context_line (SystemMessage content) = []"

definition resolution_prompt :: "string \<Rightarrow> string \<Rightarrow> string" where
  "resolution_prompt context_str user_input =
     ''You are a context resolver. Given a conversation history and a new user query, your job is to rewrite the query to include all necessary context.'' @ nl @
     nl @
     ''CONVERSATION HISTORY:'' @ nl @
     context_str @ nl @
     nl @
     ''NEW USER QUERY: '' @ dq @ user_input @ dq @ nl @
     nl @
     ''TASK:'' @ nl @
     ''If the user query refers to something from previous messages (like '' @ dq @ ''saham ini'' @ dq @
     '', '' @ dq @ ''perusahaan tersebut'' @ dq @ '', '' @ dq @ ''data quarter'' @ dq @
     '', etc.), rewrite the query to include the full context (ticker symbol, company name, etc.).'' @ nl @
     nl @
     ''If the query is already complete and clear, return it as-is.'' @ nl @
     nl @
     ''OUTPUT FORMAT:'' @ nl @
     ''Return ONLY the resolved query text, nothing else. No explanation, no markdown.'' @ nl @
     nl @
     ''RESOLVED QUERY:''"

text \<open>The call of the model and \<open>.strip()\<close> are inside the \<open>try\<close>: an exception of the
  model, and the \<open>AttributeError\<close> of \<open>None.strip()\<close>, both give the input back.\<close>

definition resolve_query_with_context :: "world \<Rightarrow> string \<Rightarrow> message list \<Rightarrow> string" where
  "resolve_query_with_context w user_input chat_history =
     (if chat_history = [] \<or> length chat_history < 2 then user_input
      else
        let context_str = join nl (concat (map context_line (last5 chat_history)));
            messages =
              [(''system'', ''You are a context resolver. Return only the resolved query, no explanation.''),
               (''user'', resolution_prompt context_str user_input)]
        in case get_chat_response w messages of
             Inl e \<Rightarrow> user_input
           | Inr None \<Rightarrow> user_input
           | Inr (Some resolved_query) \<Rightarrow> strip resolved_query)"

section \<open>The Response Composer\<close>

text \<open>The failure glyph U+274C that prefixes an error-marker string, in UTF-8.\<close>

definition error_marker :: string where
  "error_marker = [CHR 0xE2, CHR 0x9D, CHR 0x8C]"

definition system_prompt :: "string \<Rightarrow> string \<Rightarrow> string \<Rightarrow> string \<Rightarrow> string" where
  "system_prompt user_input resolved_query tool_result rag_context =
     ''You are Collega AI Assistant, a helpful financial chatbot specializing in Indonesian stock market.'' @ nl @
     nl @
     ''ORIGINAL USER QUESTION: '' @ dq @ user_input @ dq @ nl @
     ''(Note: This may have been resolved from context to: '' @ dq @ resolved_query @ dq @ '')'' @ nl @
     nl @
     ''RAW DATA FROM FINANCIAL DATABASE:'' @ nl @
     tool_result @ nl @
     nl @
     ''INSTRUCTIONS:'' @ nl @
     ''1. Answer the ORIGINAL question naturally, as if continuing the conversation'' @ nl @
     ''2. Extract relevant information from the raw data above'' @ nl @
     ''3. Present in Bahasa Indonesia with proper formatting'' @ nl @
     ''4. If the user said '' @ dq @ ''saham ini'' @ dq @ '' or similar pronouns, use them naturally in your response'' @ nl @
     ''5. Format numbers with thousand separators (Rp)'' @ nl @
     ''6. Highlight key metrics that answer the question'' @ nl @
     ''7. Keep response concise but informative'' @ nl @
     nl @
     ''Now, provide a natural conversational response:'' @
     (if rag_context \<noteq> []
      then nl @ nl @ ''ADDITIONAL CONTEXT FROM UPLOADED DOCUMENTS:'' @ nl @ rag_context @ nl
      else [])"

fun history_message :: "message \<Rightarrow> (string \<times> string) list" where
  "history_message (HumanMessage content) = [(''user'', content)]"
| "history_message (AIMessage content) = [(''assistant'', content)]"
| "history_message (SystemMessage content) = []"

text \<open>What \<open>run_agent\<close> does with the result of the tool: narrate it, or \<open>None\<close>.\<close>

definition compose ::
  "world \<Rightarrow> string \<Rightarrow> string \<Rightarrow> message list \<Rightarrow> string \<Rightarrow> string option \<Rightarrow> exn + string option" where
  "compose w user_input resolved_query chat_history rag_context tool_result =
     (case tool_result of
        None \<Rightarrow> Inr None
      | Some result \<Rightarrow>
          if result \<noteq> [] \<and> \<not> startswith result error_marker
          then get_chat_response w
                 ([(''system'', system_prompt user_input resolved_query result rag_context)] @
                  concat (map history_message (last5 chat_history)) @
                  [(''user'', user_input)])
          else Inr None)"

definition run_agent ::
  "similarity \<Rightarrow> world \<Rightarrow> string \<Rightarrow> message list \<Rightarrow> string \<Rightarrow> (exn + string option) \<times> world" where
  "run_agent ratio w user_input chat_history rag_context =
     (let resolved_query = resolve_query_with_context w user_input chat_history in
      case detect_intent_and_route ratio w resolved_query chat_history of
        (routed, w') \<Rightarrow>
          (try_except
             (case routed of
                Inl e \<Rightarrow> Inl e
              | Inr (intent, ps) \<Rightarrow>
                  if intent \<noteq> ''unknown''
                  then (case execute_tool w' intent ps of
                          Inl e \<Rightarrow> Inl e
                        | Inr tool_result \<Rightarrow>
                            compose w' user_input resolved_query chat_history rag_context tool_result)
                  else Inr None)
             (\<lambda>e. Inr None),
           w'))"

section \<open>The Financial-Query Classifier\<close>

definition specific_financial_terms :: "string list" where
  "specific_financial_terms =
     [''saham'', ''stock'', ''emiten'', ''ticker'', ''ihsg'', ''idx'', ''bursa'',
      ''per'', ''pbv'', ''roe'', ''roa'', ''market cap'', ''kapitalisasi'',
      ''gainer'', ''loser'', ''volume'', ''transaksi'',
      ''bbca'', ''bbri'', ''bmri'', ''tlkm'', ''asii'', ''unvr'', ''goto'', ''buka'',
      ''adro'', ''indf'', ''icbp'', ''klbf'', ''eraa'', ''antm'', ''ptba'',
      ''bank bca'', ''bank bri'', ''bank mandiri'', ''bank rakyat'',
      ''lq45'', ''lq 45'', ''idx30'', ''kompas100'',
      ''perbankan'', ''telekomunikasi'', ''tambang'', ''properti'', ''energi'',
      ''berita saham'', ''info saham'', ''harga saham'',
      ''finansial'', ''financial'', ''laporan'', ''quarter'', ''kuartal'']"

text \<open>\<open>if ticker\<close>: a ticker that is neither \<open>None\<close> nor empty.\<close>

fun found :: "string option \<Rightarrow> bool" where
  "found None = False"
| "found (Some t) = (t \<noteq> [])"

text \<open>The loop over the reversed last five turns: system messages are skipped, the
  first turn with a ticker ends the loop.\<close>

fun context_ticker_loop :: "similarity \<Rightarrow> world \<Rightarrow> message list \<Rightarrow> string option \<times> world" where
  "context_ticker_loop ratio w [] = (None, w)"
| "context_ticker_loop ratio w (SystemMessage content # msgs) = context_ticker_loop ratio w msgs"
| "context_ticker_loop ratio w (HumanMessage content # msgs) =
     (case extract_ticker ratio w content of
        (potential_ticker, w') \<Rightarrow>
          if found potential_ticker then (potential_ticker, w')
          else context_ticker_loop ratio w' msgs)"
| "context_ticker_loop ratio w (AIMessage content # msgs) =
     (case extract_ticker ratio w content of
        (potential_ticker, w') \<Rightarrow>
          if found potential_ticker then (potential_ticker, w')
          else context_ticker_loop ratio w' msgs)"

definition is_financial_query ::
  "similarity \<Rightarrow> world \<Rightarrow> string \<Rightarrow> message list \<Rightarrow> (exn + bool) \<times> world" where
  "is_financial_query ratio w user_input chat_history =
     (if \<not> SECTORS_AVAILABLE w then (Inr False, w)
      else
        let has_financial_term = any_in specific_financial_terms (lower user_input) in
        case extract_ticker ratio w user_input of
          (ticker, w1) \<Rightarrow>
            (case (if \<not> found ticker \<and> chat_history \<noteq> []
                   then context_ticker_loop ratio w1 (rev (last5 chat_history))
                   else (None, w1)) of
               (context_ticker, w2) \<Rightarrow>
                 (case detect_intent_and_route ratio w2 user_input chat_history of
                    (Inl e, w3) \<Rightarrow> (Inl e, w3)
                  | (Inr (intent, ps), w3) \<Rightarrow>
                      (Inr (has_financial_term \<or> ticker \<noteq> None \<or> context_ticker \<noteq> None \<or>
                            intent \<noteq> ''unknown''),
                       w3))))"

section \<open>Worlds used in the examples\<close>

text \<open>A similarity for closed examples: 1 on equal strings, 0 otherwise. The theorems
  below hold for every similarity.\<close>

definition exact_ratio :: similarity where
  "exact_ratio a b = (if a = b then 1 else 0)"

text \<open>A process without a provider: no client, an unpopulated cache, a model that
  answers \<open>ok\<close> and tools that report the missing provider, as those of
  \<open>sectors_tools.py\<close> do without a client.\<close>

definition not_configured :: string where
  "not_configured = error_marker @ '' Sectors API not configured.''"

definition offline_world :: world where
  "offline_world =
     \<lparr>company_cache = None, sectors_api = False, SECTORS_AVAILABLE = True,
      provider = (\<lambda>n rq. Inl (Raised ''no provider'')), api_calls = 0, now_year = 2024,
      get_chat_response = (\<lambda>messages. Inr (Some ''ok'')),
      invoke = (\<lambda>name ps. Inr (Some not_configured))\<rparr>"

text \<open>The same process with tools that raise.\<close>

definition raising_world :: world where
  "raising_world = offline_world\<lparr>invoke := (\<lambda>name ps. Inl (Raised ''timeout''))\<rparr>"

text \<open>A process whose cache holds one company, and the same process a year later.\<close>

definition bank_central_asia :: company where
  "bank_central_asia = \<lparr>company_name = ''PT Bank Central Asia'', symbol = ''BBCA''\<rparr>"

definition cached_world :: world where
  "cached_world = offline_world\<lparr>company_cache := Some [bank_central_asia], sectors_api := True\<rparr>"

definition next_year_world :: world where
  "next_year_world = cached_world\<lparr>now_year := 2025\<rparr>"

text \<open>A process with the same cache and year whose provider, tools and request count
  differ.\<close>

definition degraded_world :: world where
  "degraded_world =
     cached_world\<lparr>sectors_api := False, api_calls := 12,
                    invoke := (\<lambda>name ps. Inl (Raised ''timeout''))\<rparr>"

text \<open>Caches with more than one company: one that also lists PT Bank Aladin Syariah,
  whose ticker on the exchange is \<open>BANK\<close>, and one with a company before and a bank
  after PT Bank Central Asia.\<close>

definition bank_aladin :: company where
  "bank_aladin = \<lparr>company_name = ''PT Bank Aladin Syariah'', symbol = ''BANK''\<rparr>"



definition aladin_world :: world where
  "aladin_world = cached_world\<lparr>company_cache := Some [bank_central_asia, bank_aladin]\<rparr>"


section \<open>The tags of the router\<close>

text \<open>The tags that occur in a \<open>return\<close> of \<open>detect_intent_and_route\<close>.\<close>

definition routed_tags :: "string list" where
  "routed_tags =
     [''top_market_cap'', ''quarterly_financials'', ''company_segments'', ''market_news'',
      ''stock_info'', ''companies_by_index'', ''companies_subsector'', ''subsector_report'',
      ''unknown'']"

section \<open>Positions of the patterns\<close>

text \<open>The pattern \<open>\b([A-Z]{4})\b\<close> matches at position \<open>i\<close> of \<open>s\<close>: four capital
  letters start there, with no word character before and none after them.\<close>

definition ticker_token_at :: "string \<Rightarrow> nat \<Rightarrow> bool" where
  "ticker_token_at s i =
     (i \<le> length s \<and> (i = 0 \<or> \<not> isword (s ! (i - 1))) \<and> match_ticker_here (drop i s))"



section \<open>Helper lemmas\<close>

lemma extract_ticker_quick:
  "quick_match (lower text) = Some t \<Longrightarrow> extract_ticker ratio w text = (Some t, w)"
  by (simp add: extract_ticker_def)

lemma extract_ticker_explicit:
  "quick_match (lower text) = None \<Longrightarrow> explicit_ticker (upper text) = Some t \<Longrightarrow>
   extract_ticker ratio w text = (Some t, w)"
  by (simp add: extract_ticker_def)

lemma detect_with_ticker:
  "extract_ticker ratio w text = (t, w') \<Longrightarrow>
   detect_intent_and_route ratio w text h = (route (now_year w') text t, w')"
  by (simp add: detect_intent_and_route_def)

lemma resolve_no_history: "resolve_query_with_context w user_input [] = user_input"
  by (simp add: resolve_query_with_context_def)

lemma all_less_list: "(\<forall>j<n. P j) = list_all P [0..<n]"
  by (auto simp: list_all_iff)

section \<open>The Tool Executor never raises\<close>

text \<open>
  Claim C8. \<open>execute_tool\<close> is total and never propagates an exception: for every intent
  tag and parameter mapping it returns a value; when the operation it dispatches to
  raises, the value is \<open>None\<close>; and every tag outside the dispatch table yields \<open>None\<close>.
\<close>

theorem execute_tool_never_raises:
  "(\<exists>r. execute_tool w intent ps = Inr r) \<and>
   ((\<exists>e. dispatch w intent ps = Inl e) \<longrightarrow> execute_tool w intent ps = Inr None) \<and>
   (intent \<notin> set dispatch_tags \<longrightarrow> execute_tool w intent ps = Inr None)"
proof (intro conjI impI)
  show "\<exists>r. execute_tool w intent ps = Inr r"
    by (cases "dispatch w intent ps") (simp_all add: execute_tool_def try_except_def)
next
  assume "\<exists>e. dispatch w intent ps = Inl e"
  then show "execute_tool w intent ps = Inr None"
    by (auto simp: execute_tool_def try_except_def)
next
  assume "intent \<notin> set dispatch_tags"
  then have "dispatch w intent ps = Inr None"
    by (simp add: dispatch_tags_def dispatch_def)
  then show "execute_tool w intent ps = Inr None"
    by (simp add: execute_tool_def try_except_def)
qed

theorem execute_tool_never_raises_witness:
  "dispatch raising_world ''stock_info'' [(''ticker'', PyStr ''BBCA'')] = Inl (Raised ''timeout'') \<and>
   execute_tool raising_world ''stock_info'' [(''ticker'', PyStr ''BBCA'')] = Inr None \<and>
   ''portfolio'' \<notin> set dispatch_tags \<and>
   execute_tool raising_world ''portfolio'' [] = Inr None"
proof -
  have d: "dispatch raising_world ''stock_info'' [(''ticker'', PyStr ''BBCA'')] = Inl (Raised ''timeout'')"
    by (simp add: dispatch_def raising_world_def)
  have t: "''portfolio'' \<notin> set dispatch_tags"
    by (simp add: dispatch_tags_def)
  from d have "\<exists>e. dispatch raising_world ''stock_info'' [(''ticker'', PyStr ''BBCA'')] = Inl e"
    by blast
  with execute_tool_never_raises [of raising_world "''stock_info''" "[(''ticker'', PyStr ''BBCA'')]"]
  have 1: "execute_tool raising_world ''stock_info'' [(''ticker'', PyStr ''BBCA'')] = Inr None"
    by blast
  from t execute_tool_never_raises [of raising_world "''portfolio''" "[]"]
  have 2: "execute_tool raising_world ''portfolio'' [] = Inr None"
    by blast
  from d t 1 2 show ?thesis by blast
qed

section \<open>The fallback of \<open>run_agent\<close>\<close>

lemma quick_match_berita_bbri: "quick_match (lower ''berita BBRI'') = Some ''BBRI''"
  by code_simp

lemma route_berita_bbri:
  "route y ''berita BBRI'' (Some ''BBRI'') =
   Inr (''market_news'', [(''query'', PyStr ''BBRI''), (''limit'', PyInt 10)])"
  by code_simp

text \<open>
  Claim C2. For every user input, history and RAG context: when the Tool Executor's
  result for the routed tag and parameters is \<open>None\<close> or a string that begins with the
  error marker, \<open>run_agent\<close> returns \<open>None\<close>.
\<close>

theorem run_agent_fallback:
  assumes routed:
    "detect_intent_and_route ratio w (resolve_query_with_context w user_input chat_history) chat_history
       = (Inr (intent, ps), w')"
    and failed:
    "execute_tool w' intent ps = Inr None \<or>
     (\<exists>result. execute_tool w' intent ps = Inr (Some result) \<and> startswith result error_marker)"
  shows "fst (run_agent ratio w user_input chat_history rag_context) = Inr None"
proof (cases "intent = ''unknown''")
  case True
  with routed show ?thesis
    by (simp add: run_agent_def try_except_def)
next
  case False
  from failed have "after = Inr None"
    if "after = (case execute_tool w' intent ps of
                   Inl e \<Rightarrow> Inl e
                 | Inr tool_result \<Rightarrow>
                     compose w' user_input (resolve_query_with_context w user_input chat_history)
                       chat_history rag_context tool_result)" for after
    using that by (auto simp: compose_def)
  with routed False show ?thesis
    by (simp add: run_agent_def try_except_def)
qed

theorem run_agent_fallback_witness:
  "detect_intent_and_route exact_ratio offline_world
     (resolve_query_with_context offline_world ''berita BBRI'' []) []
     = (Inr (''market_news'', [(''query'', PyStr ''BBRI''), (''limit'', PyInt 10)]), offline_world) \<and>
   execute_tool offline_world ''market_news'' [(''query'', PyStr ''BBRI''), (''limit'', PyInt 10)]
     = Inr (Some not_configured) \<and>
   startswith not_configured error_marker \<and>
   fst (run_agent exact_ratio offline_world ''berita BBRI'' [] ''annual report'') = Inr None"
proof -
  have routed: "detect_intent_and_route exact_ratio offline_world
     (resolve_query_with_context offline_world ''berita BBRI'' []) []
     = (Inr (''market_news'', [(''query'', PyStr ''BBRI''), (''limit'', PyInt 10)]), offline_world)"
    by (simp add: resolve_no_history
          detect_with_ticker [OF extract_ticker_quick [OF quick_match_berita_bbri]] route_berita_bbri)
  have tool: "execute_tool offline_world ''market_news'' [(''query'', PyStr ''BBRI''), (''limit'', PyInt 10)]
     = Inr (Some not_configured)"
    by (simp add: execute_tool_def try_except_def dispatch_def offline_world_def)
  have marker: "startswith not_configured error_marker"
    by (simp add: not_configured_def error_marker_def)
  from tool marker have failed:
    "execute_tool offline_world ''market_news'' [(''query'', PyStr ''BBRI''), (''limit'', PyInt 10)] = Inr None \<or>
     (\<exists>result. execute_tool offline_world ''market_news'' [(''query'', PyStr ''BBRI''), (''limit'', PyInt 10)]
        = Inr (Some result) \<and> startswith result error_marker)"
    by blast
  from routed tool marker run_agent_fallback [OF routed failed] show ?thesis
    by blast
qed

section \<open>Routing of the two example texts\<close>

lemma quick_match_halo: "quick_match (lower ''halo apa kabar'') = None"
  by code_simp

lemma explicit_ticker_halo: "explicit_ticker (upper ''halo apa kabar'') = Some ''HALO''"
  by code_simp

lemma route_halo:
  "route y ''halo apa kabar'' (Some ''HALO'') =
   Inr (''market_news'', [(''query'', PyStr ''HALO''), (''limit'', PyInt 10)])"
  by code_simp

text \<open>
  Claim C1, as the code has it. For the text \<open>halo apa kabar\<close>, whatever the history, the
  cache and the provider, \<open>detect_intent_and_route\<close> returns the tag \<open>market_news\<close> with
  the parameters \<open>query = "HALO"\<close> and \<open>limit = 10\<close>: the uppercased text starts with the
  four-letter word \<open>HALO\<close>, which is not in the stoplist and so is taken for a ticker, and
  \<open>kabar\<close> is a news keyword.
\<close>

theorem halo_routes_to_market_news:
  "detect_intent_and_route ratio w ''halo apa kabar'' chat_history =
   (Inr (''market_news'', [(''query'', PyStr ''HALO''), (''limit'', PyInt 10)]), w)"
  by (simp add: detect_with_ticker [OF extract_ticker_explicit [OF quick_match_halo explicit_ticker_halo]]
        route_halo)

text \<open>The claim as stated (tag \<open>unknown\<close>, no parameters) fails without any history.\<close>

theorem halo_is_not_unknown:
  "fst (detect_intent_and_route exact_ratio offline_world ''halo apa kabar'' []) \<noteq> Inr (''unknown'', [])"
  by (simp add: detect_with_ticker [OF extract_ticker_explicit [OF quick_match_halo explicit_ticker_halo]]
        route_halo)

lemma quick_match_laporan: "quick_match (lower ''laporan kuartal Q2 2024 BBCA'') = Some ''BBCA''"
  by code_simp

lemma route_laporan:
  "route y ''laporan kuartal Q2 2024 BBCA'' (Some ''BBCA'') =
   Inr (''quarterly_financials'',
        [(''ticker'', PyStr ''BBCA''), (''quarter'', PyInt 2), (''year'', PyInt 2024)])"
  by code_simp

text \<open>
  Claim C6. For the text \<open>laporan kuartal Q2 2024 BBCA\<close>, \<open>detect_intent_and_route\<close>
  returns the tag \<open>quarterly_financials\<close> with the parameters \<open>ticker = "BBCA"\<close>,
  \<open>quarter = 2\<close>, \<open>year = 2024\<close>, in every world and for every history.
\<close>

theorem laporan_kuartal_routes_to_quarterly_financials:
  "detect_intent_and_route ratio w ''laporan kuartal Q2 2024 BBCA'' chat_history =
   (Inr (''quarterly_financials'',
         [(''ticker'', PyStr ''BBCA''), (''quarter'', PyInt 2), (''year'', PyInt 2024)]), w)"
  by (simp add: detect_with_ticker [OF extract_ticker_quick [OF quick_match_laporan]] route_laporan)

section \<open>What the router depends on\<close>

lemma quick_match_q2: "quick_match (lower ''q2 BBCA'') = Some ''BBCA''"
  by code_simp

lemma route_q2:
  "route y ''q2 BBCA'' (Some ''BBCA'') =
   Inr (''quarterly_financials'',
        [(''ticker'', PyStr ''BBCA''), (''quarter'', PyInt 2), (''year'', PyInt y)])"
  by code_simp

text \<open>Two invocations with the same text, history and cached company list, one in
  2024 and one in 2025, return different parameters.\<close>

theorem router_depends_on_the_year:
  "company_cache cached_world = company_cache next_year_world \<and>
   fst (detect_intent_and_route exact_ratio cached_world ''q2 BBCA'' []) \<noteq>
   fst (detect_intent_and_route exact_ratio next_year_world ''q2 BBCA'' [])"
  by (simp add: detect_with_ticker [OF extract_ticker_quick [OF quick_match_q2]] route_q2
        cached_world_def next_year_world_def offline_world_def)

lemma get_all_companies_cached:
  "company_cache w = Some cs \<Longrightarrow> get_all_companies w = (cs, w)"
  by (simp add: get_all_companies_def)

lemma find_ticker_by_name_cached:
  "company_cache w = Some cs \<Longrightarrow> company_cache w2 = Some cs \<Longrightarrow>
   find_ticker_by_name ratio w name = (fst (find_ticker_by_name ratio w2 name), w)"
  by (simp add: find_ticker_by_name_def get_all_companies_cached split: sum.splits prod.splits)

lemma first_found_cached:
  "company_cache w = Some cs \<Longrightarrow> company_cache w2 = Some cs \<Longrightarrow>
   first_found ratio w names = (fst (first_found ratio w2 names), w)"
proof (induction names)
  case Nil
  then show ?case by simp
next
  case (Cons name names)
  have a: "find_ticker_by_name ratio w name = (fst (find_ticker_by_name ratio w2 name), w)"
    using Cons.prems by (rule find_ticker_by_name_cached)
  have b: "find_ticker_by_name ratio w2 name = (fst (find_ticker_by_name ratio w2 name), w2)"
    using Cons.prems(2) Cons.prems(2) by (rule find_ticker_by_name_cached)
  show ?case
    by (cases "fst (find_ticker_by_name ratio w2 name)")
       (use a b Cons.IH [OF Cons.prems] in \<open>auto split: prod.splits\<close>)
qed

lemma extract_ticker_cached:
  "company_cache w = Some cs \<Longrightarrow> company_cache w2 = Some cs \<Longrightarrow>
   extract_ticker ratio w text = (fst (extract_ticker ratio w2 text), w)"
  by (simp add: extract_ticker_def first_found_cached [of w cs w2] split: option.splits)

text \<open>
  Claim C9, as the code has it. \<open>detect_intent_and_route\<close> is deterministic over its
  text, the cached company list and the current calendar year: two invocations with the
  same text in worlds with the same populated cache and the same year return the same
  (tag, parameters) pair, whatever the histories, the provider, the tools and the model;
  and the invocation leaves the world as it was.
\<close>

theorem router_deterministic_given_cache_and_year:
  assumes "company_cache w1 = Some cs" and "company_cache w2 = Some cs"
      and "now_year w1 = now_year w2"
  shows "fst (detect_intent_and_route ratio w1 text h1) = fst (detect_intent_and_route ratio w2 text h2) \<and>
         snd (detect_intent_and_route ratio w1 text h1) = w1"
proof -
  have 1: "extract_ticker ratio w1 text = (fst (extract_ticker ratio w2 text), w1)"
    using assms(1,2) by (rule extract_ticker_cached)
  have 2: "extract_ticker ratio w2 text = (fst (extract_ticker ratio w2 text), w2)"
    using assms(2,2) by (rule extract_ticker_cached)
  show ?thesis
    by (simp add: detect_with_ticker [OF 1] detect_with_ticker [OF 2] assms(3))
qed

theorem router_deterministic_given_cache_and_year_witness:
  "company_cache cached_world = Some [bank_central_asia] \<and>
   company_cache degraded_world = Some [bank_central_asia] \<and>
   now_year cached_world = now_year degraded_world \<and>
   fst (detect_intent_and_route exact_ratio cached_world ''saham Bank Central Asia gimana?'' []) =
   fst (detect_intent_and_route exact_ratio degraded_world ''saham Bank Central Asia gimana?''
          [HumanMessage ''berita BBRI'']) \<and>
   snd (detect_intent_and_route exact_ratio cached_world ''saham Bank Central Asia gimana?'' []) =
   cached_world"
proof -
  have a: "company_cache cached_world = Some [bank_central_asia]"
    by (simp add: cached_world_def)
  have b: "company_cache degraded_world = Some [bank_central_asia]"
    by (simp add: degraded_world_def cached_world_def)
  have c: "now_year cached_world = now_year degraded_world"
    by (simp add: degraded_world_def)
  from a b c router_deterministic_given_cache_and_year [OF a b c] show ?thesis
    by blast
qed

section \<open>The range of the router\<close>

lemma route_top_tag: "route_top user_input = Inr (tag, ps) \<Longrightarrow> tag = ''top_market_cap''"
  by (auto simp: route_top_def split: option.splits sum.splits)

lemma route_ticker_tag:
  "fst (route_ticker y user_input t) \<in>
   {''quarterly_financials'', ''company_segments'', ''market_news'', ''stock_info''}"
  by (simp add: route_ticker_def route_quarterly_def Let_def split: option.splits)

lemma route_general_tag:
  "fst (route_general text_lower) \<in>
   {''market_news'', ''companies_by_index'', ''companies_subsector'', ''subsector_report'', ''unknown''}"
  by (simp add: route_general_def split: option.splits prod.splits)

lemma route_cases:
  assumes "route y user_input t = Inr (tag, ps)"
  shows "tag = ''top_market_cap'' \<or> tag = fst (route_ticker y user_input (the t)) \<or>
         tag = fst (route_general (lower user_input))"
proof (cases "is_top_request (lower user_input)")
  case True
  with assms have "route_top user_input = Inr (tag, ps)" by (simp add: route_def)
  then show ?thesis by (simp add: route_top_tag)
next
  case False
  with assms show ?thesis
    by (cases t) (auto simp: route_def Let_def split: if_splits)
qed

lemma route_tag:
  assumes "route y user_input t = Inr (tag, ps)"
  shows "tag \<in> set routed_tags"
proof -
  have a: "''top_market_cap'' \<in> set routed_tags"
    by (simp add: routed_tags_def)
  have b: "{''quarterly_financials'', ''company_segments'', ''market_news'', ''stock_info''}
           \<subseteq> set routed_tags"
    by (simp add: routed_tags_def)
  have c: "{''market_news'', ''companies_by_index'', ''companies_subsector'', ''subsector_report'',
            ''unknown''} \<subseteq> set routed_tags"
    by (simp add: routed_tags_def)
  from route_cases [OF assms] show ?thesis
    using a b c route_ticker_tag [of y user_input "the t"] route_general_tag [of "lower user_input"]
    by blast
qed

lemma idx_not_routed: "''idx_market_cap_history'' \<notin> set routed_tags"
  by (simp add: routed_tags_def)

lemma dispatch_routed:
  assumes "tag \<in> set routed_tags"
  shows "dispatch (w\<lparr>invoke := (invoke w)(''get_idx_market_cap_history'' := tool)\<rparr>) tag ps =
         dispatch w tag ps"
proof -
  from assms idx_not_routed have "tag \<noteq> ''idx_market_cap_history''" by blast
  then show ?thesis by (simp add: dispatch_def)
qed

text \<open>
  Claim C10. For every text and history, \<open>detect_intent_and_route\<close> never returns the tag
  \<open>idx_market_cap_history\<close>: a tag it returns is one of the nine of \<open>routed_tags\<close>, and
  for such a tag \<open>execute_tool\<close> does not depend on the tool \<open>get_idx_market_cap_history\<close>,
  so that branch of the dispatch is not reached through routing.
\<close>

theorem router_never_selects_idx_market_cap_history:
  assumes "detect_intent_and_route ratio w user_input chat_history = (Inr (tag, ps), w')"
  shows "tag \<in> set routed_tags \<and> tag \<noteq> ''idx_market_cap_history'' \<and>
         execute_tool (w'\<lparr>invoke := (invoke w')(''get_idx_market_cap_history'' := tool)\<rparr>) tag ps =
         execute_tool w' tag ps"
proof -
  from assms have "route (now_year w') user_input (fst (extract_ticker ratio w user_input)) = Inr (tag, ps)"
    by (auto simp: detect_intent_and_route_def split: prod.splits)
  then have t: "tag \<in> set routed_tags" by (rule route_tag)
  with idx_not_routed have "tag \<noteq> ''idx_market_cap_history''" by blast
  with t show ?thesis by (simp add: execute_tool_def dispatch_routed)
qed

lemma detect_berita_bbri:
  "detect_intent_and_route exact_ratio offline_world ''berita BBRI'' [] =
   (Inr (''market_news'', [(''query'', PyStr ''BBRI''), (''limit'', PyInt 10)]), offline_world)"
  by (simp add: detect_with_ticker [OF extract_ticker_quick [OF quick_match_berita_bbri]] route_berita_bbri)

theorem router_never_selects_idx_market_cap_history_witness:
  "detect_intent_and_route exact_ratio offline_world ''berita BBRI'' [] =
     (Inr (''market_news'', [(''query'', PyStr ''BBRI''), (''limit'', PyInt 10)]), offline_world) \<and>
   ''market_news'' \<in> set routed_tags \<and> ''market_news'' \<noteq> ''idx_market_cap_history'' \<and>
   execute_tool
     (offline_world\<lparr>invoke := (invoke offline_world)
        (''get_idx_market_cap_history'' := invoke raising_world ''get_idx_market_cap_history'')\<rparr>)
     ''market_news'' [(''query'', PyStr ''BBRI''), (''limit'', PyInt 10)] =
   execute_tool offline_world ''market_news'' [(''query'', PyStr ''BBRI''), (''limit'', PyInt 10)]"
  using detect_berita_bbri router_never_selects_idx_market_cap_history [OF detect_berita_bbri]
  by blast

text \<open>Each of the nine tags is returned for some text.\<close>

lemma reach_top: "fst (detect_intent_and_route exact_ratio offline_world ''top 5 saham'' []) =
    Inr (''top_market_cap'', [(''limit'', PyInt 5)])"
  by code_simp
lemma reach_quarterly: "fst (detect_intent_and_route exact_ratio offline_world ''q2 BBCA'' []) =
    Inr (''quarterly_financials'', [(''ticker'', PyStr ''BBCA''), (''quarter'', PyInt 2), (''year'', PyInt 2024)])"
  by code_simp
lemma reach_segments: "fst (detect_intent_and_route exact_ratio offline_world ''segmen BBCA'' []) =
    Inr (''company_segments'', [(''ticker'', PyStr ''BBCA'')])"
  by code_simp
lemma reach_news: "fst (detect_intent_and_route exact_ratio offline_world ''berita BBRI'' []) =
    Inr (''market_news'', [(''query'', PyStr ''BBRI''), (''limit'', PyInt 10)])"
  by code_simp
lemma reach_stock: "fst (detect_intent_and_route exact_ratio offline_world ''BBCA'' []) =
    Inr (''stock_info'', [(''ticker'', PyStr ''BBCA'')])"
  by code_simp
lemma reach_index: "fst (detect_intent_and_route exact_ratio offline_world ''lq 45'' []) =
    Inr (''companies_by_index'', [(''index'', PyStr ''LQ45''), (''limit'', PyInt 20)])"
  by code_simp
lemma reach_subsector: "fst (detect_intent_and_route exact_ratio offline_world ''banking'' []) =
    Inr (''companies_subsector'', [(''subsector'', PyStr ''banks''), (''limit'', PyInt 20)])"
  by code_simp
lemma reach_report: "fst (detect_intent_and_route exact_ratio offline_world ''analisis perbankan'' []) =
    Inr (''subsector_report'', [(''subsector'', PyStr ''banks'')])"
  by code_simp
lemma reach_unknown: "fst (detect_intent_and_route exact_ratio offline_world ''hi'' []) =
    Inr (''unknown'', [])"
  by code_simp

lemma routed_tags_reached:
  "\<forall>tag \<in> set routed_tags. \<exists>user_input ps.
     fst (detect_intent_and_route exact_ratio offline_world user_input []) = Inr (tag, ps)"
  unfolding routed_tags_def
  using reach_top reach_quarterly reach_segments reach_news reach_stock reach_index
    reach_subsector reach_report reach_unknown
  by (simp del: fst_conv) blast


section \<open>The classifier accepts what the router routes\<close>

lemma route_no_raise: "route y user_input t = Inr x \<Longrightarrow> \<exists>x'. route y' user_input t' = Inr x'"
  by (cases "is_top_request (lower user_input)") (simp_all add: route_def Let_def split: option.splits)

lemma route_ticker_known: "fst (route_ticker y user_input t) \<noteq> ''unknown''"
proof -
  have "''unknown'' \<notin> {''quarterly_financials'', ''company_segments'', ''market_news'', ''stock_info''}"
    by simp
  with route_ticker_tag [of y user_input t] show ?thesis by metis
qed

lemma route_known_any_ticker:
  assumes "route y user_input None = Inr (tag, ps)" and "tag \<noteq> ''unknown''"
      and "route y' user_input t' = Inr (tag', ps')"
  shows "tag' \<noteq> ''unknown''"
proof (cases "is_top_request (lower user_input)")
  case True
  with assms(3) have "route_top user_input = Inr (tag', ps')" by (simp add: route_def)
  then have "tag' = ''top_market_cap''" by (rule route_top_tag)
  then show ?thesis by simp
next
  case False
  with assms(1) have g: "fst (route_general (lower user_input)) = tag"
    by (simp add: route_def)
  from route_cases [OF assms(3)] show ?thesis
  proof (elim disjE)
    assume "tag' = ''top_market_cap''"
    then show ?thesis by simp
  next
    assume "tag' = fst (route_ticker y' user_input (the t'))"
    then show ?thesis by (simp add: route_ticker_known)
  next
    assume "tag' = fst (route_general (lower user_input))"
    with g assms(2) show ?thesis by simp
  qed
qed

text \<open>
  Claim C5. When the provider is available (\<open>SECTORS_AVAILABLE\<close>), for every text and
  history for which \<open>detect_intent_and_route\<close> returns a tag other than \<open>unknown\<close>,
  \<open>is_financial_query\<close> on the same text and history, started in the same world, returns
  \<open>True\<close>.
\<close>

theorem routed_queries_are_financial:
  assumes available: "SECTORS_AVAILABLE w"
      and routed: "fst (detect_intent_and_route ratio w user_input chat_history) = Inr (tag, ps)"
      and known: "tag \<noteq> ''unknown''"
  shows "fst (is_financial_query ratio w user_input chat_history) = Inr True"
proof -
  obtain t w1 where e: "extract_ticker ratio w user_input = (t, w1)" by fastforce
  with routed have r: "route (now_year w1) user_input t = Inr (tag, ps)"
    by (simp add: detect_intent_and_route_def)
  obtain ct w2 where c:
    "(if \<not> found t \<and> chat_history \<noteq> [] then context_ticker_loop ratio w1 (rev (last5 chat_history))
      else (None, w1)) = (ct, w2)" by fastforce
  obtain t3 w3 where e3: "extract_ticker ratio w2 user_input = (t3, w3)" by fastforce
  from route_no_raise [OF r] obtain tag3 ps3 where r3: "route (now_year w3) user_input t3 = Inr (tag3, ps3)"
    by fastforce
  have k: "t \<noteq> None \<or> tag3 \<noteq> ''unknown''"
  proof (cases t)
    case None
    with r known r3 show ?thesis by (auto dest: route_known_any_ticker)
  next
    case (Some a)
    then show ?thesis by simp
  qed
  have d: "detect_intent_and_route ratio w2 user_input chat_history = (Inr (tag3, ps3), w3)"
    using e3 r3 by (simp add: detect_intent_and_route_def)
  have "is_financial_query ratio w user_input chat_history =
        (Inr (any_in specific_financial_terms (lower user_input) \<or> t \<noteq> None \<or> ct \<noteq> None \<or>
              tag3 \<noteq> ''unknown''), w3)"
    using available by (simp add: is_financial_query_def Let_def e c d)
  with k show ?thesis by auto
qed

theorem routed_queries_are_financial_witness:
  "SECTORS_AVAILABLE offline_world \<and>
   fst (detect_intent_and_route exact_ratio offline_world ''banking'' []) =
     Inr (''companies_subsector'', [(''subsector'', PyStr ''banks''), (''limit'', PyInt 20)]) \<and>
   ''companies_subsector'' \<noteq> ''unknown'' \<and>
   fst (is_financial_query exact_ratio offline_world ''banking'' []) = Inr True"
proof -
  have a: "SECTORS_AVAILABLE offline_world" by (simp add: offline_world_def)
  have k: "''companies_subsector'' \<noteq> ''unknown''" by simp
  from a reach_subsector k routed_queries_are_financial [OF a reach_subsector k] show ?thesis
    by blast
qed

section \<open>The count of a ranking request\<close>






















section \<open>The explicit-ticker stage\<close>

lemma search_ticker_from_first:
  assumes "i \<le> length s"
      and "if i = 0 then b else \<not> isword (s ! (i - 1))"
      and "match_ticker_here (drop i s)"
      and "\<forall>j<i. \<not> ((if j = 0 then b else \<not> isword (s ! (j - 1))) \<and> match_ticker_here (drop j s))"
  shows "search_ticker_from b s = Some (take 4 (drop i s))"
  using assms
proof (induction s arbitrary: b i)
  case Nil
  then show ?case by (simp add: match_ticker_here_def)
next
  case (Cons c cs)
  show ?case
  proof (cases i)
    case 0
    with Cons.prems show ?thesis by simp
  next
    case (Suc k)
    from Cons.prems(4) Suc have no0: "\<not> (b \<and> match_ticker_here (c # cs))"
      by (auto dest: spec [of _ 0])
    have 1: "k \<le> length cs" using Cons.prems(1) Suc by simp
    have 2: "if k = 0 then \<not> isword c else \<not> isword (cs ! (k - 1))"
      using Cons.prems(2) Suc by (cases k) simp_all
    have 3: "match_ticker_here (drop k cs)" using Cons.prems(3) Suc by simp
    have 4: "\<forall>j<k. \<not> ((if j = 0 then \<not> isword c else \<not> isword (cs ! (j - 1))) \<and>
                       match_ticker_here (drop j cs))"
    proof (intro allI impI)
      fix j assume "j < k"
      then have "Suc j < i" using Suc by simp
      with Cons.prems(4) have "\<not> (\<not> isword ((c # cs) ! j) \<and> match_ticker_here (drop j cs))"
        by (auto dest: spec [of _ "Suc j"])
      then show "\<not> ((if j = 0 then \<not> isword c else \<not> isword (cs ! (j - 1))) \<and>
                    match_ticker_here (drop j cs))"
        by (cases j) simp_all
    qed
    have "search_ticker_from (\<not> isword c) cs = Some (take 4 (drop k cs))"
      using 1 2 3 4 by (rule Cons.IH)
    with no0 Suc show ?thesis by auto
  qed
qed

lemma search_ticker_first:
  assumes "ticker_token_at s i" and "\<forall>j<i. \<not> ticker_token_at s j"
  shows "search_ticker s = Some (take 4 (drop i s))"
proof -
  have a: "i \<le> length s" using assms(1) by (simp add: ticker_token_at_def)
  have b: "if i = 0 then True else \<not> isword (s ! (i - 1))"
    using assms(1) by (auto simp: ticker_token_at_def)
  have c: "match_ticker_here (drop i s)" using assms(1) by (simp add: ticker_token_at_def)
  have d: "\<forall>j<i. \<not> ((if j = 0 then True else \<not> isword (s ! (j - 1))) \<and> match_ticker_here (drop j s))"
  proof (intro allI impI)
    fix j assume "j < i"
    with assms(2) a have "\<not> ticker_token_at s j" and "j \<le> length s" by auto
    then show "\<not> ((if j = 0 then True else \<not> isword (s ! (j - 1))) \<and> match_ticker_here (drop j s))"
      by (auto simp: ticker_token_at_def)
  qed
  show ?thesis unfolding search_ticker_def using a b c d by (rule search_ticker_from_first)
qed

lemma code_char_of: "n < 256 \<Longrightarrow> code (char_of n) = n"
  by (simp add: code_def)

lemma code_less: "code c < 256"
  by (simp add: code_def)

text \<open>The case mappings stay within ASCII.\<close>

lemma ascii_lower: "ascii s \<Longrightarrow> ascii (lower s)"
proof -
  have "code (lower_char c) < 128" if "code c < 128" for c
  proof (cases "isupper c")
    case True
    then have "code (lower_char c) = code c + 32"
      by (simp add: lower_char_def isupper_def code_char_of)
    with True show ?thesis by (simp add: isupper_def)
  next
    case False
    with that show ?thesis by (simp add: lower_char_def)
  qed
  then show "ascii s \<Longrightarrow> ascii (lower s)"
    by (simp add: ascii_def lower_def list_all_iff)
qed

lemma ascii_upper: "ascii s \<Longrightarrow> ascii (upper s)"
proof -
  have "code (upper_char c) < 128" if "code c < 128" for c
  proof (cases "islower c")
    case True
    then have "code (upper_char c) = code c - 32"
      using code_less [of c] by (simp add: upper_char_def code_char_of)
    with that show ?thesis by simp
  next
    case False
    with that show ?thesis by (simp add: upper_char_def)
  qed
  then show "ascii s \<Longrightarrow> ascii (upper s)"
    by (simp add: ascii_def upper_def list_all_iff)
qed

lemma upper_char_isupper: "isupper c \<Longrightarrow> upper_char c = c"
  by (simp add: upper_char_def islower_def isupper_def)

lemma isword_upper_char: "isword (upper_char c) = isword c"
proof (cases "islower c")
  case True
  then have "code (upper_char c) = code c - 32"
    using code_less [of c] by (simp add: upper_char_def code_char_of)
  with True show ?thesis by (auto simp: isword_def isupper_def islower_def isdigit_def)
next
  case False
  then show ?thesis by (simp add: upper_char_def)
qed

lemma upper_word: "list_all isupper word \<Longrightarrow> upper word = word"
  by (induction word) (simp_all add: upper_def upper_char_isupper)

lemma upper_append: "upper (a @ b) = upper a @ upper b"
  by (simp add: upper_def)

lemma length_upper: "length (upper s) = length s"
  by (simp add: upper_def)

lemma quick_match_none:
  "\<forall>key \<in> set (map fst quick_map). \<not> contains key text_lower \<Longrightarrow> quick_match text_lower = None"
  by (auto simp: quick_match_def find_None_iff)

text \<open>
  Claim C4, as the code has it. For every ASCII text in whose lowercase form no
  alias-table key occurs, and whose first stand-alone four-letter alphabetic word (of
  either case: the text is uppercased before the search) is an uppercase word that is not
  in the stoplist, \<open>extract_ticker\<close> returns that word as the ticker, without consulting
  the cache.
\<close>

theorem first_ticker_word_is_extracted:
  assumes text_ascii: "ascii user_input"
      and parts: "user_input = pre @ word @ post"
      and four: "length word = 4" and capital: "list_all isupper word"
      and left: "pre = [] \<or> \<not> isword (last pre)"
      and right: "post = [] \<or> \<not> isword (hd post)"
      and stop: "word \<notin> set common_words"
      and unaliased: "\<forall>key \<in> set (map fst quick_map). \<not> contains key (lower user_input)"
      and first: "\<forall>j < length pre. \<not> ticker_token_at (upper user_input) j"
  shows "extract_ticker ratio w user_input = (Some word, w)"
proof -
  have up: "upper user_input = upper pre @ word @ upper post"
    using parts capital by (simp add: upper_append upper_word)
  have dr: "drop (length pre) (upper user_input) = word @ upper post"
    using up by (simp add: length_upper)
  have after: "case upper post of [] \<Rightarrow> True | d # _ \<Rightarrow> \<not> isword d"
    using right by (cases post) (simp_all add: upper_def isword_upper_char)
  have m: "match_ticker_here (drop (length pre) (upper user_input))"
    using four capital after by (simp add: dr match_ticker_here_def)
  have before: "length pre = 0 \<or> \<not> isword (upper user_input ! (length pre - 1))"
  proof (cases "pre = []")
    case True
    then show ?thesis by simp
  next
    case False
    with left have "\<not> isword (last pre)" by simp
    moreover have "upper user_input ! (length pre - 1) = upper_char (last pre)"
      using False up by (simp add: nth_append length_upper upper_def last_conv_nth)
    ultimately show ?thesis by (simp add: isword_upper_char)
  qed
  have tok: "ticker_token_at (upper user_input) (length pre)"
    using m before parts by (simp add: ticker_token_at_def length_upper)
  have "search_ticker (upper user_input) = Some (take 4 (drop (length pre) (upper user_input)))"
    using tok first by (rule search_ticker_first)
  then have "search_ticker (upper user_input) = Some word"
    using four by (simp add: dr)
  then have "explicit_ticker (upper user_input) = Some word"
    using stop by (simp add: explicit_ticker_def)
  with quick_match_none [OF unaliased] show ?thesis
    by (rule extract_ticker_explicit)
qed

theorem first_ticker_word_is_extracted_witness:
  "ascii ''berita ANTM hari ini'' \<and>
   ''berita ANTM hari ini'' = ''berita '' @ ''ANTM'' @ '' hari ini'' \<and>
   length ''ANTM'' = 4 \<and> list_all isupper ''ANTM'' \<and>
   \<not> isword (last ''berita '') \<and> \<not> isword (hd '' hari ini'') \<and>
   ''ANTM'' \<notin> set common_words \<and>
   quick_match (lower ''berita ANTM hari ini'') = None \<and>
   extract_ticker exact_ratio cached_world ''berita ANTM hari ini'' = (Some ''ANTM'', cached_world)"
proof -
  have a: "ascii ''berita ANTM hari ini''" by code_simp
  have parts: "''berita ANTM hari ini'' = ''berita '' @ ''ANTM'' @ '' hari ini''" by simp
  have four: "length ''ANTM'' = 4" by simp
  have capital: "list_all isupper ''ANTM''" by code_simp
  have l: "\<not> isword (last ''berita '')" by code_simp
  have r: "\<not> isword (hd '' hari ini'')" by code_simp
  have stop: "''ANTM'' \<notin> set common_words" by (simp add: common_words_def)
  have unaliased: "\<forall>key \<in> set (map fst quick_map). \<not> contains key (lower ''berita ANTM hari ini'')"
    by code_simp
  have "list_all (\<lambda>j. \<not> ticker_token_at (upper ''berita ANTM hari ini'') j) [0..<length ''berita '']"
    by code_simp
  then have first: "\<forall>j < length ''berita ''. \<not> ticker_token_at (upper ''berita ANTM hari ini'') j"
    by (simp only: all_less_list)
  from l have left: "''berita '' = [] \<or> \<not> isword (last ''berita '')" by blast
  from r have right: "'' hari ini'' = [] \<or> \<not> isword (hd '' hari ini'')" by blast
  have q: "quick_match (lower ''berita ANTM hari ini'') = None"
    using unaliased by (rule quick_match_none)
  from a parts four capital l r stop q
    first_ticker_word_is_extracted [OF a parts four capital left right stop unaliased first]
  show ?thesis by blast
qed


text \<open>The claim as stated fails for a qualifying word that is not the first four-letter
  word of the text: only the first match of the pattern is examined, and when it is in
  the stoplist the stage gives up. Here \<open>ABCD\<close> qualifies, no alias occurs, and without
  cached companies the result is \<open>None\<close>.\<close>

theorem later_ticker_word_is_not_extracted:
  "ticker_token_at ''BANK ABCD'' 5 \<and> take 4 (drop 5 ''BANK ABCD'') = ''ABCD'' \<and>
   list_all isupper ''ABCD'' \<and> ''ABCD'' \<notin> set common_words \<and>
   quick_match (lower ''BANK ABCD'') = None \<and>
   fst (extract_ticker exact_ratio offline_world ''BANK ABCD'') = None"
proof -
  have "ticker_token_at ''BANK ABCD'' 5" by code_simp
  moreover have "take 4 (drop 5 ''BANK ABCD'') = ''ABCD''" by simp
  moreover have "list_all isupper ''ABCD''" by code_simp
  moreover have "''ABCD'' \<notin> set common_words" by (simp add: common_words_def)
  moreover have "quick_match (lower ''BANK ABCD'') = None" by code_simp
  moreover have "fst (extract_ticker exact_ratio offline_world ''BANK ABCD'') = None" by code_simp
  ultimately show ?thesis by blast
qed

section \<open>The fuzzy-match stage\<close>



lemma lower_bbca: "lower (symbol bank_central_asia) \<noteq> ''bank''"
  by code_simp






lemma strip_lower_bank: "strip (lower ''Bank'') = ''bank''"
  by code_simp

lemma quick_match_saham: "quick_match (lower ''saham Bank Central Asia gimana?'') = None"
  by code_simp

lemma explicit_ticker_saham: "explicit_ticker (upper ''saham Bank Central Asia gimana?'') = None"
  by code_simp

lemma search_ticker_saham: "search_ticker (upper ''saham Bank Central Asia gimana?'') = Some ''BANK''"
  by code_simp

lemma potential_names_saham:
  "potential_names ''saham Bank Central Asia gimana?'' =
   [''Bank'', ''Central'', ''Asia'', ''saham'', ''saham Bank'', ''saham Bank Central'',
    ''Bank'', ''Bank Central'', ''Bank Central Asia'', ''Central'', ''Central Asia'',
    ''Central Asia gimana?'', ''Asia'', ''Asia gimana?'', ''gimana?'']"
  by code_simp

lemma bank_central_asia_in_name:
  "contains (strip (lower ''Bank Central Asia'')) (lower (company_name bank_central_asia))"
  by code_simp






text \<open>This does not depend on the similarity.\<close>

lemma lower_bank_aladin: "lower ''BANK'' = ''bank''"
  by code_simp

lemma symbol_bank_aladin: "symbol bank_aladin = ''BANK''"
  by (simp add: bank_aladin_def)

lemma aladin_for_every_ratio:
  "extract_ticker ratio aladin_world ''saham Bank Central Asia gimana?'' = (Some ''BANK'', aladin_world)"
proof -
  have cache: "company_cache aladin_world = Some [bank_central_asia, bank_aladin]"
    by (simp add: aladin_world_def)
  have "best_match_loop ratio ''bank'' [bank_central_asia, bank_aladin] None 0 = Inl ''BANK''"
    using lower_bbca by (simp add: Let_def lower_bank_aladin symbol_bank_aladin)
  then have "find_ticker_by_name ratio aladin_world ''Bank'' = (Some ''BANK'', aladin_world)"
    by (simp add: find_ticker_by_name_def get_all_companies_cached [OF cache] strip_lower_bank)
  then have "first_found ratio aladin_world (potential_names ''saham Bank Central Asia gimana?'') =
      (Some ''BANK'', aladin_world)"
    by (simp add: potential_names_saham)
  then show ?thesis
    by (simp add: extract_ticker_def quick_match_saham explicit_ticker_saham)
qed

end
